theory Spec2Isabelle
  imports Complex_Main
begin

section \<open>Data model of \<open>cad/bushing.py\<close>\<close>

text \<open>
  Python's \<open>str\<close> is a sequence of code points and \<open>len\<close> counts them, so a label is a
  list of code points; the two literals of the source are ASCII. Python's \<open>float\<close> fields
  are modelled by \<open>real\<close>: the model is the exact-arithmetic reading of the program and
  says nothing about rounding, infinities or NaN.
\<close>

type_synonym py_str = "nat list"

definition lit :: "string \<Rightarrow> py_str" where
  "lit s = map of_char s"

type_synonym vec2 = "real \<times> real"
type_synonym vec3 = "real \<times> real \<times> real"

text \<open>The dataclass \<open>BushingSpec\<close>, fields in declaration order.\<close>

record BushingSpec =
  bushing_id :: real
  bushing_od :: real
  bushing_length :: real
  bushing_each_time :: int
  flag_thickness :: real
  flag_length :: real
  flag_height :: real
  text_font_size :: real
  text_thickness :: real
  flag_stem_length_radial :: real
  flag_stem_od :: real
  text_top :: py_str
  text_bottom :: py_str

text \<open>
  The defaults of the dataclass; \<open>bushing_length\<close> has none and must be given.
\<close>

definition BushingSpec_defaults :: "real \<Rightarrow> BushingSpec" where
  "BushingSpec_defaults len =
     \<lparr> bushing_id = 32 / 10, bushing_od = 64 / 10, bushing_length = len,
       bushing_each_time = 4,
       flag_thickness = 28 / 10, flag_length = 15, flag_height = 12,
       text_font_size = 5, text_thickness = 1,
       flag_stem_length_radial = 4, flag_stem_od = 35 / 10,
       text_top = [], text_bottom = [] \<rparr>"

section \<open>The build123d objects the program constructs\<close>

text \<open>
  The geometry kernel is external. A part is the term of kernel calls the program makes:
  primitives, rigid motions, extrusion of a sketch placed on a plane, and the two boolean
  operators \<open>+\<close> and \<open>-\<close>. \<open>Part_None\<close> is \<open>bd.Part(None)\<close>.
\<close>

datatype align = Align_MIN | Align_CENTER | Align_MAX

datatype axis = Axis_X | Axis_Y | Axis_Z

datatype plane = Plane_XY | Plane_XZ | Plane_YZ

datatype sketch =
    Text py_str real "align \<times> align"
  | Translate2D sketch vec2

datatype placed_sketch = On_Plane plane sketch

datatype part =
    Part_None
  | Cylinder real real "align \<times> align \<times> align"
  | Cone real real real "align \<times> align \<times> align"
  | Box real real real "align \<times> align \<times> align"
  | Extrude placed_sketch real
  | Rotate part axis real
  | Translate part vec3
  | Add part part
  | Sub part part

text \<open>
  \<open>Cylinder radius height align\<close>; \<open>Cone bottom_radius top_radius height align\<close>;
  \<open>Box length width height align\<close>; \<open>Extrude sketch amount\<close>; \<open>Rotate p axis angle\<close>
  with the angle in degrees; \<open>Translate p v\<close>.

  The calls the program makes into build123d, each of which may raise: making a shape
  (a constructor, a rigid motion, \<open>extrude\<close>, \<open>+\<close> or \<open>-\<close>, named by the shape it would
  give), making a sketch, \<open>bounding_box()\<close>, \<open>center()\<close>, \<open>Plane * sketch\<close>, \<open>show\<close> and
  \<open>export_stl\<close>.
\<close>

datatype call =
    New_part part
  | New_sketch sketch
  | Bounding_box sketch
  | Center part
  | Place plane sketch
  | Show part
  | Export_stl part

section \<open>Errors\<close>

text \<open>
  The two assertions of \<open>__post_init__\<close> raise an \<open>AssertionError\<close> whose message
  interpolates the two fields compared: \<open>"OD {bushing_od} < ID {bushing_id}"\<close> and
  \<open>"Flag stem OD {flag_stem_od} > Bushing OD {bushing_od}"\<close>. The assertions of lines
  124 and 135 have no message. The assertion of lines 173-175 names the part. An
  exception raised inside build123d is recorded with the call that raised it.
  \<open>UnboundLocalError\<close> is what \<open>return part\<close> raises when the loop body never ran.
\<close>

datatype error =
    AssertionError_OD_ID real real
  | AssertionError_Flag_Stem_OD real real
  | AssertionError_text_sketch
  | AssertionError_not_Part part
  | KernelError call
  | UnboundLocalError

definition post_init :: "BushingSpec \<Rightarrow> error + BushingSpec" where
  "post_init self =
     (if \<not> (bushing_od self > bushing_id self)
        then Inl (AssertionError_OD_ID (bushing_od self) (bushing_id self))
      else if \<not> (flag_stem_od self < bushing_od self)
        then Inl (AssertionError_Flag_Stem_OD (flag_stem_od self) (bushing_od self))
      else Inr self)"

section \<open>The kernel\<close>

text \<open>
  What the program gets back from build123d is a parameter of the model: the rendered
  width and height of a string at a font size, the centre of a shape that is neither a
  box nor a cylinder, whether a call raises, whether \<open>Plane * sketch\<close> is an instance of
  \<open>bd.Sketch\<close>, and whether a shape is an instance of \<open>bd.Part | bd.Compound | bd.Solid\<close>.
\<close>

record kernel =
  text_width :: "py_str \<Rightarrow> real \<Rightarrow> real"
  text_height :: "py_str \<Rightarrow> real \<Rightarrow> real"
  shape_center :: "part \<Rightarrow> vec3"
  raises :: "call \<Rightarrow> bool"
  is_Sketch :: "placed_sketch \<Rightarrow> bool"
  is_Part :: "part \<Rightarrow> bool"

text \<open>
  build123d aligns an object by its bounding box: on an axis where the object has extent
  \<open>size\<close>, \<open>Align.MIN\<close> puts the lower bound at 0, \<open>Align.CENTER\<close> the middle and
  \<open>Align.MAX\<close> the upper bound.
\<close>

fun align_lo :: "align \<Rightarrow> real \<Rightarrow> real" where
  "align_lo Align_MIN extent = 0"
| "align_lo Align_CENTER extent = - (extent / 2)"
| "align_lo Align_MAX extent = - extent"

definition align_hi :: "align \<Rightarrow> real \<Rightarrow> real" where
  "align_hi a extent = align_lo a extent + extent"

text \<open>\<open>sketch.bounding_box().size.X\<close>: a translation does not change the size.\<close>

fun bounding_box_size_X :: "kernel \<Rightarrow> sketch \<Rightarrow> real" where
  "bounding_box_size_X k (Text s font_size al) = text_width k s font_size"
| "bounding_box_size_X k (Translate2D sk v) = bounding_box_size_X k sk"

text \<open>The vertical extent of a sketch in its own plane: lower and upper bound.\<close>

fun bounding_box_min_Y :: "kernel \<Rightarrow> sketch \<Rightarrow> real" where
  "bounding_box_min_Y k (Text s font_size al) = align_lo (snd al) (text_height k s font_size)"
| "bounding_box_min_Y k (Translate2D sk v) = bounding_box_min_Y k sk + snd v"

fun bounding_box_max_Y :: "kernel \<Rightarrow> sketch \<Rightarrow> real" where
  "bounding_box_max_Y k (Text s font_size al) = align_hi (snd al) (text_height k s font_size)"
| "bounding_box_max_Y k (Translate2D sk v) = bounding_box_max_Y k sk + snd v"

text \<open>
  \<open>shape.center()\<close>: computed for a box, for a cylinder and through translations, read
  from the kernel for every other shape.
\<close>

fun center :: "kernel \<Rightarrow> part \<Rightarrow> vec3" where
  "center k (Box l w h (ax, ay, az)) =
     (align_lo ax l + l / 2, align_lo ay w + w / 2, align_lo az h + h / 2)"
| "center k (Cylinder r h (ax, ay, az)) =
     (align_lo ax (2 * r) + r, align_lo ay (2 * r) + r, align_lo az h + h / 2)"
| "center k (Translate p (dx, dy, dz)) =
     (case center k p of (x, y, z) \<Rightarrow> (x + dx, y + dy, z + dz))"
| "center k p = shape_center k p"

text \<open>
  The extent of a cylinder or a box along \<open>z\<close>, through translations: lower and upper
  bound. Not computed for other shapes.
\<close>

fun axial_range :: "part \<Rightarrow> (real \<times> real) option" where
  "axial_range (Cylinder r h (ax, ay, az)) = Some (align_lo az h, align_hi az h)"
| "axial_range (Box l w h (ax, ay, az)) = Some (align_lo az h, align_hi az h)"
| "axial_range (Translate p (dx, dy, dz)) =
     (case axial_range p of None \<Rightarrow> None | Some (lo, hi) \<Rightarrow> Some (lo + dz, hi + dz))"
| "axial_range p = None"

text \<open>The string an outline renders.\<close>

fun outline_text :: "sketch \<Rightarrow> py_str" where
  "outline_text (Text s font_size al) = s"
| "outline_text (Translate2D sk v) = outline_text sk"

fun placed_text :: "placed_sketch \<Rightarrow> py_str" where
  "placed_text (On_Plane pl sk) = outline_text sk"

definition vec_X :: "vec3 \<Rightarrow> real" where
  "vec_X v = fst v"

definition vec_Z :: "vec3 \<Rightarrow> real" where
  "vec_Z v = snd (snd v)"

section \<open>Running the calls\<close>

text \<open>
  A step either fails with an error or gives a value; \<open>and_then\<close> runs the next step on
  the value, as the next statement runs when the previous one did not raise.
\<close>

definition and_then :: "error + 'a \<Rightarrow> ('a \<Rightarrow> error + 'b) \<Rightarrow> error + 'b" where
  "and_then m f = (case m of Inl e \<Rightarrow> Inl e | Inr x \<Rightarrow> f x)"

definition kernel_call :: "kernel \<Rightarrow> call \<Rightarrow> 'a \<Rightarrow> error + 'a" where
  "kernel_call k c result = (if raises k c then Inl (KernelError c) else Inr result)"

definition new_part :: "kernel \<Rightarrow> part \<Rightarrow> error + part" where
  "new_part k x = kernel_call k (New_part x) x"

definition new_sketch :: "kernel \<Rightarrow> sketch \<Rightarrow> error + sketch" where
  "new_sketch k sk = kernel_call k (New_sketch sk) sk"

text \<open>
  A chain \<open>Primitive(...).rotate(...).translate(...)\<close> makes its calls from the inside
  out.
\<close>

fun build :: "kernel \<Rightarrow> part \<Rightarrow> error + part" where
  "build k (Rotate p ax deg) =
     (case build k p of Inl e \<Rightarrow> Inl e | Inr p' \<Rightarrow> new_part k (Rotate p' ax deg))"
| "build k (Translate p v) =
     (case build k p of Inl e \<Rightarrow> Inl e | Inr p' \<Rightarrow> new_part k (Translate p' v))"
| "build k x = new_part k x"

fun build_sketch :: "kernel \<Rightarrow> sketch \<Rightarrow> error + sketch" where
  "build_sketch k (Translate2D sk v) =
     (case build_sketch k sk of
        Inl e \<Rightarrow> Inl e
      | Inr sk' \<Rightarrow> new_sketch k (Translate2D sk' v))"
| "build_sketch k sk = new_sketch k sk"

definition bounding_box_X :: "kernel \<Rightarrow> sketch \<Rightarrow> error + real" where
  "bounding_box_X k sk = kernel_call k (Bounding_box sk) (bounding_box_size_X k sk)"

definition center_of :: "kernel \<Rightarrow> part \<Rightarrow> error + vec3" where
  "center_of k x = kernel_call k (Center x) (center k x)"

text \<open>
  \<open>text_sketch = bd.Plane.XZ * sketch\<close> followed by
  \<open>assert isinstance(text_sketch, bd.Sketch)\<close> (lines 121-124 and 132-135).
\<close>

definition place :: "kernel \<Rightarrow> plane \<Rightarrow> sketch \<Rightarrow> error + placed_sketch" where
  "place k pl sk =
     and_then (kernel_call k (Place pl sk) (On_Plane pl sk)) (\<lambda>text_sketch.
       if is_Sketch k text_sketch then Inr text_sketch
       else Inl AssertionError_text_sketch)"

text \<open>A \<open>for\<close> loop whose body rebinds \<open>p\<close> and may raise.\<close>

fun fold_steps ::
  "(part \<Rightarrow> sketch \<Rightarrow> error + part) \<Rightarrow> part \<Rightarrow> sketch list \<Rightarrow> error + part" where
  "fold_steps body p [] = Inr p"
| "fold_steps body p (text_2d # rest) =
     (case body p text_2d of Inl e \<Rightarrow> Inl e | Inr p' \<Rightarrow> fold_steps body p' rest)"

section \<open>\<open>make_bushing\<close>\<close>

text \<open>Lines 51-55: the sleeve.\<close>

definition sleeve :: "BushingSpec \<Rightarrow> part" where
  "sleeve base_spec =
     Cylinder (bushing_od base_spec / 2) (bushing_length base_spec)
       (Align_CENTER, Align_CENTER, Align_MIN)"

text \<open>Lines 57-62: the effective label strings \<open>(text_top, text_bottom)\<close>.\<close>

definition label_layout :: "py_str \<Rightarrow> py_str \<Rightarrow> py_str \<times> py_str" where
  "label_layout t b =
     (if length t \<le> length b
      then (t @ lit '' to'', b)
      else (t, lit ''to '' @ b))"

definition effective_text_top :: "BushingSpec \<Rightarrow> py_str" where
  "effective_text_top base_spec =
     fst (label_layout (text_top base_spec) (text_bottom base_spec))"

definition effective_text_bottom :: "BushingSpec \<Rightarrow> py_str" where
  "effective_text_bottom base_spec =
     snd (label_layout (text_top base_spec) (text_bottom base_spec))"

text \<open>Lines 64-73: the two text outlines.\<close>

definition text_2d_top :: "BushingSpec \<Rightarrow> sketch" where
  "text_2d_top base_spec =
     Translate2D
       (Text (effective_text_top base_spec) (text_font_size base_spec)
          (Align_CENTER, Align_MIN))
       (0, 6 / 10)"

definition text_2d_bottom :: "BushingSpec \<Rightarrow> sketch" where
  "text_2d_bottom base_spec =
     Translate2D
       (Text (effective_text_bottom base_spec) (text_font_size base_spec)
          (Align_CENTER, Align_MAX))
       (0, - (6 / 10))"

text \<open>Lines 75-79: the flag length that is used, computed from the rendered widths.\<close>

definition max_text_width :: "kernel \<Rightarrow> BushingSpec \<Rightarrow> real" where
  "max_text_width k base_spec =
     max (bounding_box_size_X k (text_2d_top base_spec))
         (bounding_box_size_X k (text_2d_bottom base_spec))"

definition computed_flag_length :: "kernel \<Rightarrow> BushingSpec \<Rightarrow> real" where
  "computed_flag_length k base_spec = max_text_width k base_spec + 2"

text \<open>Lines 82-101: the flag stem.\<close>

definition stem :: "BushingSpec \<Rightarrow> part" where
  "stem base_spec =
     Translate
       (Rotate
          (Cone
             (min (bushing_od base_spec / 2) (bushing_length base_spec / 2))
             (flag_thickness base_spec / 2)
             (flag_stem_length_radial base_spec + bushing_od base_spec / 2)
             (Align_CENTER, Align_CENTER, Align_MIN))
          Axis_Y 90)
       (0, 0, min (bushing_length base_spec / 2) (flag_height base_spec / 2))"

text \<open>Lines 104-117: the flag body.\<close>

definition flag_body_box_of :: "real \<Rightarrow> BushingSpec \<Rightarrow> part" where
  "flag_body_box_of len base_spec =
     Translate
       (Box len (flag_thickness base_spec)
          (flag_height base_spec) (Align_MIN, Align_CENTER, Align_MIN))
       (flag_stem_length_radial base_spec + bushing_od base_spec / 2, 0, 0)"

definition flag_body_box :: "kernel \<Rightarrow> BushingSpec \<Rightarrow> part" where
  "flag_body_box k base_spec =
     flag_body_box_of (computed_flag_length k base_spec) base_spec"

text \<open>
  Lines 120-128 and 131-139. The outline is first moved to the centre of the flag body,
  in the coordinates of the plane \<open>XZ\<close>: these are the sketches handed to \<open>Plane.XZ *\<close>
  on the front and on the back.
\<close>

definition front_text_sketch :: "kernel \<Rightarrow> BushingSpec \<Rightarrow> sketch \<Rightarrow> sketch" where
  "front_text_sketch k base_spec text_2d =
     Translate2D text_2d
       (vec_X (center k (flag_body_box k base_spec)),
        vec_Z (center k (flag_body_box k base_spec)))"

definition back_text_sketch :: "kernel \<Rightarrow> BushingSpec \<Rightarrow> sketch \<Rightarrow> sketch" where
  "back_text_sketch k base_spec text_2d =
     Translate2D text_2d
       (- vec_X (center k (flag_body_box k base_spec)),
        vec_Z (center k (flag_body_box k base_spec)))"

text \<open>
  The body of the loop of lines 120-128, for the accumulated part \<open>p\<close> and one outline:
  read the centre of the flag body, move the outline there, place it on the plane, assert
  that the result is a sketch, extrude, and union.
\<close>

definition front_step ::
  "kernel \<Rightarrow> BushingSpec \<Rightarrow> part \<Rightarrow> part \<Rightarrow> sketch \<Rightarrow> error + part" where
  "front_step k base_spec box p text_2d =
     and_then (center_of k box) (\<lambda>c.
     and_then (new_sketch k (Translate2D text_2d (vec_X c, vec_Z c))) (\<lambda>moved.
     and_then (place k Plane_XZ moved) (\<lambda>text_sketch.
     and_then (new_part k
         (Extrude text_sketch (text_thickness base_spec + flag_thickness base_spec / 2)))
       (\<lambda>relief.
     new_part k (Add p relief)))))"

text \<open>
  The body of the loop of lines 131-139: as on the front with the outline moved to
  \<open>-X\<close>, and the extrusion turned by 180 degrees about the Z axis before the union.
\<close>

definition back_step ::
  "kernel \<Rightarrow> BushingSpec \<Rightarrow> part \<Rightarrow> part \<Rightarrow> sketch \<Rightarrow> error + part" where
  "back_step k base_spec box p text_2d =
     and_then (center_of k box) (\<lambda>c.
     and_then (new_sketch k (Translate2D text_2d (- vec_X c, vec_Z c))) (\<lambda>moved.
     and_then (place k Plane_XZ moved) (\<lambda>text_sketch.
     and_then (new_part k
         (Extrude text_sketch (text_thickness base_spec + flag_thickness base_spec / 2)))
       (\<lambda>extruded.
     and_then (new_part k (Rotate extruded Axis_Z 180)) (\<lambda>relief.
     new_part k (Add p relief))))))"

text \<open>Lines 141-145: the bore.\<close>

definition bore :: "BushingSpec \<Rightarrow> part" where
  "bore base_spec =
     Cylinder (bushing_id base_spec / 2) (bushing_length base_spec)
       (Align_CENTER, Align_CENTER, Align_MIN)"

text \<open>
  The body of \<open>make_bushing\<close>, statement by statement. The accumulator \<open>p\<close> is rebound
  by every \<open>+=\<close> and \<open>-=\<close>. The first call or assertion that fails ends the function
  with its error; otherwise the accumulated part is returned.
\<close>

definition make_bushing :: "kernel \<Rightarrow> BushingSpec \<Rightarrow> error + part" where
  "make_bushing k base_spec =
     and_then (new_part k Part_None) (\<lambda>p.
     and_then (build k (sleeve base_spec)) (\<lambda>cylinder.
     and_then (new_part k (Add p cylinder)) (\<lambda>p.
     and_then (build_sketch k (text_2d_top base_spec)) (\<lambda>top_2d.
     and_then (build_sketch k (text_2d_bottom base_spec)) (\<lambda>bottom_2d.
     and_then (bounding_box_X k top_2d) (\<lambda>width_top.
     and_then (bounding_box_X k bottom_2d) (\<lambda>width_bottom.
     and_then (build k (stem base_spec)) (\<lambda>cone.
     and_then (new_part k (Add p cone)) (\<lambda>p.
     and_then (build k (flag_body_box_of (max width_top width_bottom + 2) base_spec))
       (\<lambda>box.
     and_then (new_part k (Add p box)) (\<lambda>p.
     and_then (fold_steps (front_step k base_spec box) p [top_2d, bottom_2d]) (\<lambda>p.
     and_then (fold_steps (back_step k base_spec box) p [top_2d, bottom_2d]) (\<lambda>p.
     and_then (build k (bore base_spec)) (\<lambda>cylinder.
     new_part k (Sub p cylinder)))))))))))))))"

text \<open>
  The part \<open>make_bushing\<close> has accumulated when nothing failed, written as one term.
\<close>

definition composed_part :: "kernel \<Rightarrow> BushingSpec \<Rightarrow> part" where
  "composed_part k s =
     Sub
       (Add (Add (Add (Add (Add (Add (Add Part_None
          (sleeve s))
          (stem s))
          (flag_body_box k s))
          (Extrude (On_Plane Plane_XZ (front_text_sketch k s (text_2d_top s)))
             (text_thickness s + flag_thickness s / 2)))
          (Extrude (On_Plane Plane_XZ (front_text_sketch k s (text_2d_bottom s)))
             (text_thickness s + flag_thickness s / 2)))
          (Rotate
             (Extrude (On_Plane Plane_XZ (back_text_sketch k s (text_2d_top s)))
                (text_thickness s + flag_thickness s / 2))
             Axis_Z 180))
          (Rotate
             (Extrude (On_Plane Plane_XZ (back_text_sketch k s (text_2d_bottom s)))
                (text_thickness s + flag_thickness s / 2))
             Axis_Z 180))
       (bore s)"

section \<open>Reading the geometry of a part\<close>

text \<open>
  Where the kernel puts a primitive's own frame after the rigid motions applied to it.
  A primitive is built at the origin with its height along \<open>+z\<close>; \<open>rotate\<close> turns
  about an axis through the origin by the right-hand rule, the angle in degrees;
  \<open>translate\<close> moves positions and keeps directions.
\<close>

fun rotate_vec :: "axis \<Rightarrow> real \<Rightarrow> vec3 \<Rightarrow> vec3" where
  "rotate_vec Axis_X deg (x, y, z) =
     (x,
      y * cos (deg * pi / 180) - z * sin (deg * pi / 180),
      y * sin (deg * pi / 180) + z * cos (deg * pi / 180))"
| "rotate_vec Axis_Y deg (x, y, z) =
     (x * cos (deg * pi / 180) + z * sin (deg * pi / 180),
      y,
      z * cos (deg * pi / 180) - x * sin (deg * pi / 180))"
| "rotate_vec Axis_Z deg (x, y, z) =
     (x * cos (deg * pi / 180) - y * sin (deg * pi / 180),
      x * sin (deg * pi / 180) + y * cos (deg * pi / 180),
      z)"

fun height_direction :: "part \<Rightarrow> vec3" where
  "height_direction (Rotate p ax deg) = rotate_vec ax deg (height_direction p)"
| "height_direction (Translate p v) = height_direction p"
| "height_direction p = (0, 0, 1)"

fun frame_origin :: "part \<Rightarrow> vec3" where
  "frame_origin (Rotate p ax deg) = rotate_vec ax deg (frame_origin p)"
| "frame_origin (Translate p (dx, dy, dz)) =
     (case frame_origin p of (x, y, z) \<Rightarrow> (x + dx, y + dy, z + dz))"
| "frame_origin p = (0, 0, 0)"

text \<open>
  The vertical distance between the two outlines: from the upper bound of the bottom
  outline to the lower bound of the top outline.
\<close>

definition text_gap :: "kernel \<Rightarrow> BushingSpec \<Rightarrow> real" where
  "text_gap k base_spec =
     bounding_box_min_Y k (text_2d_top base_spec)
       - bounding_box_max_Y k (text_2d_bottom base_spec)"

section \<open>\<open>make_many_bushings\<close>\<close>

text \<open>
  The body of the loop of lines 167-188 for the entry at index \<open>i\<close>. An entry is the
  field values handed to the constructor (the overrides with the defaults filled in).
  Constructing the spec runs \<open>__post_init__\<close>; then the part is built, moved, shown,
  checked by the \<open>isinstance\<close> assertion and exported. The file name is left out.
\<close>

definition build_entry :: "kernel \<Rightarrow> nat \<Rightarrow> BushingSpec \<Rightarrow> error + part" where
  "build_entry k i bushing_overrides =
     and_then (post_init bushing_overrides) (\<lambda>spec.
     and_then (make_bushing k spec) (\<lambda>p.
     and_then (new_part k (Translate p (0, real i * bushing_od spec + 5, 0))) (\<lambda>part.
     and_then (kernel_call k (Show part) part) (\<lambda>shown.
     and_then (if is_Part k part then Inr part else Inl (AssertionError_not_Part part))
       (\<lambda>checked.
     kernel_call k (Export_stl part) part)))))"

text \<open>
  The loop from index \<open>i\<close> on: the first error ends the run, and what was exported before
  stays exported. An export is recorded as the index with the part.
\<close>

fun make_many_bushings_from ::
  "kernel \<Rightarrow> nat \<Rightarrow> BushingSpec list \<Rightarrow> (nat \<times> part) list
     \<Rightarrow> (nat \<times> part) list \<times> error option" where
  "make_many_bushings_from k i [] exported = (exported, None)"
| "make_many_bushings_from k i (bushing_overrides # rest) exported =
     (case build_entry k i bushing_overrides of
        Inl e \<Rightarrow> (exported, Some e)
      | Inr part \<Rightarrow>
          make_many_bushings_from k (Suc i) rest (exported @ [(i, part)]))"

text \<open>
  The function on the decoded list: the exports, and the returned part or the error.
  \<open>return part\<close> returns the last part built; on an empty list \<open>part\<close> was never bound.
\<close>

definition make_many_bushings ::
  "kernel \<Rightarrow> BushingSpec list \<Rightarrow> (nat \<times> part) list \<times> (error + part)" where
  "make_many_bushings k bushing_list =
     (case make_many_bushings_from k 0 bushing_list [] of
        (exported, Some e) \<Rightarrow> (exported, Inl e)
      | (exported, None) \<Rightarrow>
          (if bushing_list = [] then (exported, Inl UnboundLocalError)
           else (exported, Inr (snd (last exported)))))"

section \<open>Sample inputs\<close>

text \<open>
  A kernel whose glyphs are squares of the font size, in which no call raises and
  \<open>Plane * sketch\<close> is a sketch exactly when the outline has text.
\<close>

definition sample_kernel :: kernel where
  "sample_kernel =
     \<lparr> text_width = (\<lambda>s font_size. font_size * real (length s)),
       text_height = (\<lambda>s font_size. font_size),
       shape_center = (\<lambda>p. (0, 0, 0)),
       raises = (\<lambda>c. False),
       is_Sketch = (\<lambda>ps. placed_text ps \<noteq> []),
       is_Part = (\<lambda>p. True) \<rparr>"

text \<open>The same kernel with glyphs twice as wide.\<close>

definition wide_kernel :: kernel where
  "wide_kernel =
     \<lparr> text_width = (\<lambda>s font_size. 2 * font_size * real (length s)),
       text_height = (\<lambda>s font_size. font_size),
       shape_center = (\<lambda>p. (1, 1, 1)),
       raises = (\<lambda>c. False),
       is_Sketch = (\<lambda>ps. placed_text ps \<noteq> []),
       is_Part = (\<lambda>p. True) \<rparr>"

text \<open>A kernel for which \<open>Plane * sketch\<close> is a sketch also when the outline is empty.\<close>

definition lenient_kernel :: kernel where
  "lenient_kernel =
     \<lparr> text_width = (\<lambda>s font_size. font_size * real (length s)),
       text_height = (\<lambda>s font_size. font_size),
       shape_center = (\<lambda>p. (0, 0, 0)),
       raises = (\<lambda>c. False),
       is_Sketch = (\<lambda>ps. True),
       is_Part = (\<lambda>p. True) \<rparr>"

definition sample_spec :: BushingSpec where
  "sample_spec =
     (BushingSpec_defaults 10) \<lparr> text_top := lit ''M3'', text_bottom := lit ''M4'' \<rparr>"

definition bad_od_spec :: BushingSpec where
  "bad_od_spec = (BushingSpec_defaults 10) \<lparr> bushing_od := 3 \<rparr>"

definition bad_stem_spec :: BushingSpec where
  "bad_stem_spec = (BushingSpec_defaults 10) \<lparr> flag_stem_od := 7 \<rparr>"

section \<open>The label layout\<close>

text \<open>
  C1. The label layout is decided by the two raw lengths alone. When the top label is
  not longer than the bottom one, the result is the top label followed by " to" and
  the bottom label as given; otherwise it is the top label as given and "to " followed
  by the bottom label. Exactly one of the two strings differs from its input, and on a
  tie it is the top one that carries the connector.
\<close>

theorem label_layout_total:
  "label_layout t b =
     (if length t \<le> length b
      then (t @ lit '' to'', b)
      else (t, lit ''to '' @ b))
   \<and> ((fst (label_layout t b) \<noteq> t) \<noteq> (snd (label_layout t b) \<noteq> b))
   \<and> (length t = length b \<longrightarrow>
        label_layout t b = (t @ lit '' to'', b))
   \<and> (length t' = length t \<and> length b' = length b \<longrightarrow>
        (fst (label_layout t' b') = t') = (fst (label_layout t b) = t))"
proof -
  have p: "t @ lit '' to'' \<noteq> t"
    by (simp add: lit_def)
  have q: "lit ''to '' @ b \<noteq> b"
    by (simp add: lit_def)
  have r: "t' @ lit '' to'' \<noteq> t'"
    by (simp add: lit_def)
  show ?thesis
    using p q r by (simp add: label_layout_def)
qed

theorem label_layout_total_witness:
  "label_layout (lit ''AA'') (lit ''BB'') = (lit ''AA to'', lit ''BB'')
   \<and> label_layout (lit ''A'') (lit ''BB'') = (lit ''A to'', lit ''BB'')
   \<and> label_layout (lit ''AAA'') (lit ''B'') = (lit ''AAA'', lit ''to B'')
   \<and> (fst (label_layout (lit ''CC'') (lit ''DD'')) = lit ''CC'')
       = (fst (label_layout (lit ''AA'') (lit ''BB'')) = lit ''AA'')"
  using label_layout_total [of "lit ''AA''" "lit ''BB''" "lit ''CC''" "lit ''DD''"]
    label_layout_total [of "lit ''A''" "lit ''BB''"]
    label_layout_total [of "lit ''AAA''" "lit ''B''"]
  by (simp add: lit_def)

section \<open>The flag length\<close>

text \<open>
  C2. The flag length that is used is the larger of the rendered widths of the two
  effective label strings at \<open>text_font_size\<close>, plus 2. Hence a build whose larger width
  is at least that of another build has a flag at least as long, and the flag length is
  never below the larger width plus 2.
\<close>

theorem flag_length_from_width:
  "computed_flag_length k s =
     max (text_width k (effective_text_top s) (text_font_size s))
         (text_width k (effective_text_bottom s) (text_font_size s)) + 2
   \<and> max_text_width k s =
     max (text_width k (effective_text_top s) (text_font_size s))
         (text_width k (effective_text_bottom s) (text_font_size s))
   \<and> (max_text_width k s \<le> max_text_width k' s' \<longrightarrow>
        computed_flag_length k s \<le> computed_flag_length k' s')
   \<and> computed_flag_length k s \<ge> max_text_width k s + 2"
  by (simp add: computed_flag_length_def max_text_width_def text_2d_top_def text_2d_bottom_def)

theorem flag_length_from_width_witness:
  "max_text_width sample_kernel sample_spec \<le> max_text_width wide_kernel sample_spec
   \<and> computed_flag_length sample_kernel sample_spec = 27
   \<and> computed_flag_length wide_kernel sample_spec = 52
   \<and> computed_flag_length sample_kernel sample_spec
       \<le> computed_flag_length wide_kernel sample_spec"
  using flag_length_from_width [of sample_kernel sample_spec wide_kernel sample_spec]
  by (simp add: computed_flag_length_def max_text_width_def text_2d_top_def
      text_2d_bottom_def effective_text_top_def effective_text_bottom_def label_layout_def
      lit_def sample_kernel_def wide_kernel_def sample_spec_def BushingSpec_defaults_def)

section \<open>Construction of a spec\<close>

text \<open>
  C3. Constructing a \<open>BushingSpec\<close> succeeds exactly when \<open>bushing_od > bushing_id\<close> and
  \<open>flag_stem_od < bushing_od\<close>, and then the spec holds the field values as given.
  Otherwise it fails with the error of the first assertion that does not hold, which
  carries the two field values compared. In the batch loop the failure ends the run at
  that entry: nothing is built or exported for it or for a later entry.
\<close>

theorem post_init_iff:
  "(post_init s = Inr s) = (bushing_od s > bushing_id s \<and> flag_stem_od s < bushing_od s)
   \<and> (\<forall>s'. post_init s = Inr s' \<longrightarrow> s' = s)
   \<and> (\<not> bushing_od s > bushing_id s \<longrightarrow>
        post_init s = Inl (AssertionError_OD_ID (bushing_od s) (bushing_id s)))
   \<and> (bushing_od s > bushing_id s \<and> \<not> flag_stem_od s < bushing_od s \<longrightarrow>
        post_init s = Inl (AssertionError_Flag_Stem_OD (flag_stem_od s) (bushing_od s)))
   \<and> (\<forall>e. post_init s = Inl e \<longrightarrow>
        make_many_bushings_from k i (s # rest) exported = (exported, Some e))"
  by (auto simp add: post_init_def build_entry_def and_then_def split: if_splits)

theorem post_init_iff_witness:
  "post_init sample_spec = Inr sample_spec
   \<and> post_init bad_od_spec = Inl (AssertionError_OD_ID 3 (32 / 10))
   \<and> post_init bad_stem_spec = Inl (AssertionError_Flag_Stem_OD 7 (64 / 10))
   \<and> make_many_bushings_from sample_kernel 0 [bad_od_spec, sample_spec] []
        = ([], Some (AssertionError_OD_ID 3 (32 / 10)))"
  using post_init_iff [of sample_spec sample_kernel 0 "[]" "[]"]
    post_init_iff [of bad_od_spec sample_kernel 0 "[sample_spec]" "[]"]
    post_init_iff [of bad_stem_spec sample_kernel 0 "[]" "[]"]
  by (simp add: sample_spec_def bad_od_spec_def bad_stem_spec_def BushingSpec_defaults_def
      post_init_def)

section \<open>What a successful build returns\<close>

lemma and_then_Inr_iff:
  "(and_then m f = Inr y) = (\<exists>x. m = Inr x \<and> f x = Inr y)"
  by (cases m) (simp_all add: and_then_def)

lemma kernel_call_Inr_iff:
  "(kernel_call k c r = Inr y) = (\<not> raises k c \<and> y = r)"
  by (auto simp add: kernel_call_def)

lemma new_part_Inr_iff:
  "(new_part k x = Inr y) = (\<not> raises k (New_part x) \<and> y = x)"
  by (simp add: new_part_def kernel_call_Inr_iff)

lemma new_sketch_Inr_iff:
  "(new_sketch k x = Inr y) = (\<not> raises k (New_sketch x) \<and> y = x)"
  by (simp add: new_sketch_def kernel_call_Inr_iff)

lemma place_Inr_iff:
  "(place k pl sk = Inr y) =
     (\<not> raises k (Place pl sk) \<and> is_Sketch k (On_Plane pl sk) \<and> y = On_Plane pl sk)"
  by (auto simp add: place_def and_then_Inr_iff kernel_call_Inr_iff)

lemma build_Inr: "build k x = Inr y \<Longrightarrow> y = x"
  by (induction k x arbitrary: y rule: build.induct)
    (auto simp add: new_part_Inr_iff split: sum.splits)

lemma build_sketch_Inr: "build_sketch k x = Inr y \<Longrightarrow> y = x"
  by (induction k x arbitrary: y rule: build_sketch.induct)
    (auto simp add: new_sketch_Inr_iff split: sum.splits)

lemma build_quiet: "\<forall>c. \<not> raises k c \<Longrightarrow> build k x = Inr x"
  by (induction k x rule: build.induct) (simp_all add: new_part_def kernel_call_def)

lemma build_sketch_quiet: "\<forall>c. \<not> raises k c \<Longrightarrow> build_sketch k x = Inr x"
  by (induction k x rule: build_sketch.induct) (simp_all add: new_sketch_def kernel_call_def)

lemma flag_body_box_measured:
  "flag_body_box_of
     (max (bounding_box_size_X k (text_2d_top s)) (bounding_box_size_X k (text_2d_bottom s)) + 2) s
   = flag_body_box k s"
  by (simp add: flag_body_box_def computed_flag_length_def max_text_width_def)

lemma front_step_Inr_iff:
  "(front_step k s (flag_body_box k s) p t = Inr q) =
     (\<not> raises k (Center (flag_body_box k s))
      \<and> \<not> raises k (New_sketch (front_text_sketch k s t))
      \<and> \<not> raises k (Place Plane_XZ (front_text_sketch k s t))
      \<and> is_Sketch k (On_Plane Plane_XZ (front_text_sketch k s t))
      \<and> \<not> raises k (New_part (Extrude (On_Plane Plane_XZ (front_text_sketch k s t))
            (text_thickness s + flag_thickness s / 2)))
      \<and> \<not> raises k (New_part (Add p (Extrude (On_Plane Plane_XZ (front_text_sketch k s t))
            (text_thickness s + flag_thickness s / 2))))
      \<and> q = Add p (Extrude (On_Plane Plane_XZ (front_text_sketch k s t))
            (text_thickness s + flag_thickness s / 2)))"
  by (auto simp add: front_step_def and_then_Inr_iff center_of_def kernel_call_Inr_iff
      new_sketch_Inr_iff place_Inr_iff new_part_Inr_iff front_text_sketch_def)

lemma back_step_Inr_iff:
  "(back_step k s (flag_body_box k s) p t = Inr q) =
     (\<not> raises k (Center (flag_body_box k s))
      \<and> \<not> raises k (New_sketch (back_text_sketch k s t))
      \<and> \<not> raises k (Place Plane_XZ (back_text_sketch k s t))
      \<and> is_Sketch k (On_Plane Plane_XZ (back_text_sketch k s t))
      \<and> \<not> raises k (New_part (Extrude (On_Plane Plane_XZ (back_text_sketch k s t))
            (text_thickness s + flag_thickness s / 2)))
      \<and> \<not> raises k (New_part (Rotate (Extrude (On_Plane Plane_XZ (back_text_sketch k s t))
            (text_thickness s + flag_thickness s / 2)) Axis_Z 180))
      \<and> \<not> raises k (New_part (Add p (Rotate (Extrude (On_Plane Plane_XZ (back_text_sketch k s t))
            (text_thickness s + flag_thickness s / 2)) Axis_Z 180)))
      \<and> q = Add p (Rotate (Extrude (On_Plane Plane_XZ (back_text_sketch k s t))
            (text_thickness s + flag_thickness s / 2)) Axis_Z 180))"
  by (auto simp add: back_step_def and_then_Inr_iff center_of_def kernel_call_Inr_iff
      new_sketch_Inr_iff place_Inr_iff new_part_Inr_iff back_text_sketch_def)

lemma fold_steps_two:
  "(fold_steps body p [a, b] = Inr q) = (\<exists>p'. body p a = Inr p' \<and> body p' b = Inr q)"
  by (auto split: sum.splits)

lemma make_bushing_Inr:
  assumes "make_bushing k s = Inr p"
  shows "p = composed_part k s"
    and "is_Sketch k (On_Plane Plane_XZ (front_text_sketch k s (text_2d_top s)))"
    and "is_Sketch k (On_Plane Plane_XZ (front_text_sketch k s (text_2d_bottom s)))"
    and "is_Sketch k (On_Plane Plane_XZ (back_text_sketch k s (text_2d_top s)))"
    and "is_Sketch k (On_Plane Plane_XZ (back_text_sketch k s (text_2d_bottom s)))"
proof -
  from assms obtain p1 c1 p2 t2 b2 w1 w2 cone p3 box p4 p5 p6 cyl where
    s1: "build k (sleeve s) = Inr c1" "new_part k (Add p1 c1) = Inr p2"
      "new_part k Part_None = Inr p1"
    and s2: "build_sketch k (text_2d_top s) = Inr t2" "build_sketch k (text_2d_bottom s) = Inr b2"
      "bounding_box_X k t2 = Inr w1" "bounding_box_X k b2 = Inr w2"
    and s3: "build k (stem s) = Inr cone" "new_part k (Add p2 cone) = Inr p3"
    and s4: "build k (flag_body_box_of (max w1 w2 + 2) s) = Inr box"
      "new_part k (Add p3 box) = Inr p4"
    and s5: "fold_steps (front_step k s box) p4 [t2, b2] = Inr p5"
      "fold_steps (back_step k s box) p5 [t2, b2] = Inr p6"
    and s6: "build k (bore s) = Inr cyl" "new_part k (Sub p6 cyl) = Inr p"
    unfolding make_bushing_def and_then_Inr_iff by blast
  have e1: "p1 = Part_None" "c1 = sleeve s" "p2 = Add Part_None (sleeve s)"
    using s1 build_Inr by (auto simp add: new_part_Inr_iff)
  have e2: "t2 = text_2d_top s" "b2 = text_2d_bottom s"
    using s2 build_sketch_Inr by auto
  have e2w: "w1 = bounding_box_size_X k (text_2d_top s)" "w2 = bounding_box_size_X k (text_2d_bottom s)"
    using s2 e2 by (auto simp add: bounding_box_X_def kernel_call_Inr_iff)
  have e3: "cone = stem s" "p3 = Add p2 (stem s)"
    using s3 build_Inr by (auto simp add: new_part_Inr_iff)
  have e4: "box = flag_body_box k s" "p4 = Add p3 (flag_body_box k s)"
    using s4 build_Inr e2w flag_body_box_measured by (auto simp add: new_part_Inr_iff)
  have e6: "cyl = bore s" "p = Sub p6 (bore s)"
    using s6 build_Inr by (auto simp add: new_part_Inr_iff)
  from s5(1) [unfolded fold_steps_two] obtain q where
    "front_step k s box p4 t2 = Inr q" "front_step k s box q b2 = Inr p5"
    by blast
  with e4 e2 have
    f1: "front_step k s (flag_body_box k s) p4 (text_2d_top s) = Inr q"
    and f2: "front_step k s (flag_body_box k s) q (text_2d_bottom s) = Inr p5"
    by simp_all
  from s5(2) [unfolded fold_steps_two] obtain r where
    "back_step k s box p5 t2 = Inr r" "back_step k s box r b2 = Inr p6"
    by blast
  with e4 e2 have
    b1: "back_step k s (flag_body_box k s) p5 (text_2d_top s) = Inr r"
    and b2: "back_step k s (flag_body_box k s) r (text_2d_bottom s) = Inr p6"
    by simp_all
  from f1 f2 b1 b2 e1 e3 e4 e6 show "p = composed_part k s"
    by (simp add: front_step_Inr_iff back_step_Inr_iff composed_part_def)
  from f1 show "is_Sketch k (On_Plane Plane_XZ (front_text_sketch k s (text_2d_top s)))"
    by (simp add: front_step_Inr_iff)
  from f2 show "is_Sketch k (On_Plane Plane_XZ (front_text_sketch k s (text_2d_bottom s)))"
    by (simp add: front_step_Inr_iff)
  from b1 show "is_Sketch k (On_Plane Plane_XZ (back_text_sketch k s (text_2d_top s)))"
    by (simp add: back_step_Inr_iff)
  from b2 show "is_Sketch k (On_Plane Plane_XZ (back_text_sketch k s (text_2d_bottom s)))"
    by (simp add: back_step_Inr_iff)
qed

lemma make_bushing_quiet_prefix:
  assumes q: "\<forall>c. \<not> raises k c"
  shows "make_bushing k s =
     and_then (fold_steps (front_step k s (flag_body_box k s))
         (Add (Add (Add Part_None (sleeve s)) (stem s)) (flag_body_box k s))
         [text_2d_top s, text_2d_bottom s]) (\<lambda>p.
     and_then (fold_steps (back_step k s (flag_body_box k s)) p
         [text_2d_top s, text_2d_bottom s]) (\<lambda>p. Inr (Sub p (bore s))))"
  using q
  by (simp add: make_bushing_def build_quiet build_sketch_quiet new_part_def kernel_call_def
      and_then_def bounding_box_X_def flag_body_box_def computed_flag_length_def
      max_text_width_def)

lemma front_step_quiet:
  "\<forall>c. \<not> raises k c \<Longrightarrow>
   front_step k s (flag_body_box k s) p t =
     (if is_Sketch k (On_Plane Plane_XZ (front_text_sketch k s t))
      then Inr (Add p (Extrude (On_Plane Plane_XZ (front_text_sketch k s t))
            (text_thickness s + flag_thickness s / 2)))
      else Inl AssertionError_text_sketch)"
  by (simp add: front_step_def and_then_def center_of_def kernel_call_def new_sketch_def
      place_def new_part_def front_text_sketch_def)

lemma back_step_quiet:
  "\<forall>c. \<not> raises k c \<Longrightarrow>
   back_step k s (flag_body_box k s) p t =
     (if is_Sketch k (On_Plane Plane_XZ (back_text_sketch k s t))
      then Inr (Add p (Rotate (Extrude (On_Plane Plane_XZ (back_text_sketch k s t))
            (text_thickness s + flag_thickness s / 2)) Axis_Z 180))
      else Inl AssertionError_text_sketch)"
  by (simp add: back_step_def and_then_def center_of_def kernel_call_def new_sketch_def
      place_def new_part_def back_text_sketch_def)

lemma make_bushing_ok:
  assumes "\<forall>c. \<not> raises k c"
    and "is_Sketch k (On_Plane Plane_XZ (front_text_sketch k s (text_2d_top s)))"
    and "is_Sketch k (On_Plane Plane_XZ (front_text_sketch k s (text_2d_bottom s)))"
    and "is_Sketch k (On_Plane Plane_XZ (back_text_sketch k s (text_2d_top s)))"
    and "is_Sketch k (On_Plane Plane_XZ (back_text_sketch k s (text_2d_bottom s)))"
  shows "make_bushing k s = Inr (composed_part k s)"
  using assms
  by (simp add: make_bushing_quiet_prefix front_step_quiet back_step_quiet and_then_def
      composed_part_def)

lemma make_bushing_rejected:
  assumes "\<forall>c. \<not> raises k c"
    and "is_Sketch k (On_Plane Plane_XZ (front_text_sketch k s (text_2d_top s)))"
    and "\<not> is_Sketch k (On_Plane Plane_XZ (front_text_sketch k s (text_2d_bottom s)))"
  shows "make_bushing k s = Inl AssertionError_text_sketch"
  using assms
  by (simp add: make_bushing_quiet_prefix front_step_quiet and_then_def)

lemmas expanded_defs = sleeve_def stem_def bore_def flag_body_box_def flag_body_box_of_def
  computed_flag_length_def max_text_width_def text_2d_top_def text_2d_bottom_def
  effective_text_top_def effective_text_bottom_def front_text_sketch_def
  back_text_sketch_def vec_X_def vec_Z_def

section \<open>The order of composition\<close>

text \<open>
  C4. Whenever \<open>make_bushing\<close> returns a part, the part is the empty part plus the
  sleeve, plus the stem, plus the flag body, plus four text reliefs in the order
  top/front, bottom/front, top/back, bottom/back, minus the bore, subtracted last. It
  returns that part when no kernel call raises and the four placed outlines are
  sketches. The bore is a cylinder of radius \<open>bushing_id / 2\<close> and height
  \<open>bushing_length\<close>; its centre is the centre of the sleeve, on the axis at half the
  length, and both run from \<open>z = 0\<close> to \<open>z = bushing_length\<close>.
\<close>

theorem make_bushing_order:
  "let fs = text_font_size s;
       top_2d = Translate2D (Text (fst (label_layout (text_top s) (text_bottom s))) fs (Align_CENTER, Align_MIN)) (0, 6 / 10);
       bottom_2d = Translate2D (Text (snd (label_layout (text_top s) (text_bottom s))) fs (Align_CENTER, Align_MAX)) (0, - (6 / 10));
       len = max (text_width k (fst (label_layout (text_top s) (text_bottom s))) fs) (text_width k (snd (label_layout (text_top s) (text_bottom s))) fs) + 2;
       off = flag_stem_length_radial s + bushing_od s / 2;
       cx = len / 2 + off;
       cz = flag_height s / 2;
       amount = text_thickness s + flag_thickness s / 2;
       front_top = On_Plane Plane_XZ (Translate2D top_2d (cx, cz));
       front_bottom = On_Plane Plane_XZ (Translate2D bottom_2d (cx, cz));
       back_top = On_Plane Plane_XZ (Translate2D top_2d (- cx, cz));
       back_bottom = On_Plane Plane_XZ (Translate2D bottom_2d (- cx, cz));
       sleeve_cylinder =
         Cylinder (bushing_od s / 2) (bushing_length s)
           (Align_CENTER, Align_CENTER, Align_MIN);
       stem_cone =
         Translate
           (Rotate
              (Cone (min (bushing_od s / 2) (bushing_length s / 2))
                    (flag_thickness s / 2)
                    (flag_stem_length_radial s + bushing_od s / 2)
                    (Align_CENTER, Align_CENTER, Align_MIN))
              Axis_Y 90)
           (0, 0, min (bushing_length s / 2) (flag_height s / 2));
       flag_box =
         Translate
           (Box len (flag_thickness s) (flag_height s)
              (Align_MIN, Align_CENTER, Align_MIN))
           (off, 0, 0);
       bore_cylinder =
         Cylinder (bushing_id s / 2) (bushing_length s)
           (Align_CENTER, Align_CENTER, Align_MIN);
       whole =
         Sub
           (Add (Add (Add (Add (Add (Add (Add Part_None
              sleeve_cylinder)
              stem_cone)
              flag_box)
              (Extrude front_top amount))
              (Extrude front_bottom amount))
              (Rotate (Extrude back_top amount) Axis_Z 180))
              (Rotate (Extrude back_bottom amount) Axis_Z 180))
           bore_cylinder
   in (\<forall>p. make_bushing k s = Inr p \<longrightarrow> p = whole)
      \<and> ((\<forall>c. \<not> raises k c) \<and> is_Sketch k front_top \<and> is_Sketch k front_bottom
            \<and> is_Sketch k back_top \<and> is_Sketch k back_bottom
          \<longrightarrow> make_bushing k s = Inr whole)
      \<and> center k bore_cylinder = (0, 0, bushing_length s / 2)
      \<and> center k sleeve_cylinder = (0, 0, bushing_length s / 2)
      \<and> axial_range bore_cylinder = Some (0, bushing_length s)
      \<and> axial_range sleeve_cylinder = Some (0, bushing_length s)"
  unfolding Let_def
  apply (intro conjI allI impI)
  subgoal premises h for p
    using make_bushing_Inr(1) [OF h] by (simp add: composed_part_def expanded_defs)
  subgoal premises h
    using make_bushing_ok [of k s] h by (simp add: composed_part_def expanded_defs)
  subgoal by simp
  subgoal by simp
  subgoal by (simp add: align_hi_def)
  subgoal by (simp add: align_hi_def)
  done

theorem make_bushing_order_witness:
  "(\<forall>c. \<not> raises sample_kernel c)
   \<and> make_bushing sample_kernel sample_spec =
       Inr (Sub
          (Add (Add (Add (Add (Add (Add (Add Part_None
             (Cylinder (16 / 5) 10 (Align_CENTER, Align_CENTER, Align_MIN)))
             (Translate
                (Rotate (Cone (16 / 5) (7 / 5) (36 / 5) (Align_CENTER, Align_CENTER, Align_MIN))
                   Axis_Y 90)
                (0, 0, 5)))
             (Translate (Box 27 (14 / 5) 12 (Align_MIN, Align_CENTER, Align_MIN))
                (36 / 5, 0, 0)))
             (Extrude
                (On_Plane Plane_XZ
                   (Translate2D
                      (Translate2D (Text (lit ''M3 to'') 5 (Align_CENTER, Align_MIN)) (0, 3 / 5))
                      (207 / 10, 6)))
                (12 / 5)))
             (Extrude
                (On_Plane Plane_XZ
                   (Translate2D
                      (Translate2D (Text (lit ''M4'') 5 (Align_CENTER, Align_MAX)) (0, - (3 / 5)))
                      (207 / 10, 6)))
                (12 / 5)))
             (Rotate
                (Extrude
                   (On_Plane Plane_XZ
                      (Translate2D
                         (Translate2D (Text (lit ''M3 to'') 5 (Align_CENTER, Align_MIN)) (0, 3 / 5))
                         (- (207 / 10), 6)))
                   (12 / 5))
                Axis_Z 180))
             (Rotate
                (Extrude
                   (On_Plane Plane_XZ
                      (Translate2D
                         (Translate2D (Text (lit ''M4'') 5 (Align_CENTER, Align_MAX)) (0, - (3 / 5)))
                         (- (207 / 10), 6)))
                   (12 / 5))
                Axis_Z 180))
          (Cylinder (8 / 5) 10 (Align_CENTER, Align_CENTER, Align_MIN)))"
  using make_bushing_order [where k = sample_kernel and s = sample_spec, unfolded Let_def,
      THEN conjunct2, THEN conjunct1]
  by (simp add: sample_kernel_def sample_spec_def BushingSpec_defaults_def
      label_layout_def lit_def)

section \<open>The stem\<close>

text \<open>
  C5. The stem is a cone with base radius \<open>min (bushing_od / 2) (bushing_length / 2)\<close>,
  top radius \<open>flag_thickness / 2\<close> and height \<open>flag_stem_length_radial + bushing_od / 2\<close>,
  turned by 90 degrees about the Y axis, which points its height along \<open>+x\<close>, and then
  moved along the sleeve axis to \<open>z = min (bushing_length / 2) (flag_height / 2)\<close>. The
  base of the cone thus lies on the sleeve axis and its top, one cone height further
  along \<open>+x\<close>, where the flag body begins. In every part that \<open>make_bushing\<close> returns the
  stem is the operand of the second union.
\<close>

theorem stem_cone:
  "stem s =
     Translate
       (Rotate
          (Cone (min (bushing_od s / 2) (bushing_length s / 2))
                (flag_thickness s / 2)
                (flag_stem_length_radial s + bushing_od s / 2)
                (Align_CENTER, Align_CENTER, Align_MIN))
          Axis_Y 90)
       (0, 0, min (bushing_length s / 2) (flag_height s / 2))
   \<and> height_direction (stem s) = (1, 0, 0)
   \<and> frame_origin (stem s) = (0, 0, min (bushing_length s / 2) (flag_height s / 2))
   \<and> frame_origin (flag_body_box k s) = (flag_stem_length_radial s + bushing_od s / 2, 0, 0)
   \<and> (\<forall>p. make_bushing k s = Inr p \<longrightarrow>
        (\<exists>rest. p = Sub (foldl Add (Add (Add Part_None (sleeve s)) (stem s)) rest) (bore s)))"
proof -
  have "composed_part k s =
      Sub (foldl Add (Add (Add Part_None (sleeve s)) (stem s))
             [flag_body_box k s,
              Extrude (On_Plane Plane_XZ (front_text_sketch k s (text_2d_top s)))
                (text_thickness s + flag_thickness s / 2),
              Extrude (On_Plane Plane_XZ (front_text_sketch k s (text_2d_bottom s)))
                (text_thickness s + flag_thickness s / 2),
              Rotate (Extrude (On_Plane Plane_XZ (back_text_sketch k s (text_2d_top s)))
                (text_thickness s + flag_thickness s / 2)) Axis_Z 180,
              Rotate (Extrude (On_Plane Plane_XZ (back_text_sketch k s (text_2d_bottom s)))
                (text_thickness s + flag_thickness s / 2)) Axis_Z 180])
          (bore s)"
    by (simp add: composed_part_def)
  then have "\<exists>rest. composed_part k s =
      Sub (foldl Add (Add (Add Part_None (sleeve s)) (stem s)) rest) (bore s)"
    by blast
  then have "\<forall>p. make_bushing k s = Inr p \<longrightarrow>
      (\<exists>rest. p = Sub (foldl Add (Add (Add Part_None (sleeve s)) (stem s)) rest) (bore s))"
    using make_bushing_Inr(1) by blast
  then show ?thesis
    by (simp add: stem_def flag_body_box_def flag_body_box_of_def)
qed

theorem stem_cone_witness:
  "(\<exists>p. make_bushing sample_kernel sample_spec = Inr p
        \<and> (\<exists>rest. p = Sub (foldl Add
              (Add (Add Part_None (sleeve sample_spec)) (stem sample_spec)) rest)
              (bore sample_spec)))
   \<and> height_direction (stem sample_spec) = (1, 0, 0)
   \<and> frame_origin (stem sample_spec) = (0, 0, 5)"
proof -
  have ok: "make_bushing sample_kernel sample_spec
      = Inr (composed_part sample_kernel sample_spec)"
    by (rule make_bushing_ok)
      (simp_all add: sample_kernel_def sample_spec_def BushingSpec_defaults_def
        front_text_sketch_def back_text_sketch_def text_2d_top_def text_2d_bottom_def
        effective_text_top_def effective_text_bottom_def label_layout_def lit_def)
  note t = stem_cone [where s = sample_spec and k = sample_kernel]
  have tie: "\<exists>rest. composed_part sample_kernel sample_spec =
      Sub (foldl Add (Add (Add Part_None (sleeve sample_spec)) (stem sample_spec)) rest)
        (bore sample_spec)"
    using t [THEN conjunct2, THEN conjunct2, THEN conjunct2, THEN conjunct2, THEN spec,
        THEN mp, OF ok] .
  have z: "min (bushing_length sample_spec / 2) (flag_height sample_spec / 2) = 5"
    by (simp add: sample_spec_def BushingSpec_defaults_def)
  show ?thesis
    using ok tie t [THEN conjunct2, THEN conjunct1]
      t [THEN conjunct2, THEN conjunct2, THEN conjunct1] z
    by simp
qed

section \<open>The text outlines\<close>

lemma flag_body_box_center_Z:
  "vec_Z (center k (flag_body_box k s)) = flag_height s / 2"
  by (simp add: flag_body_box_def flag_body_box_of_def vec_Z_def)

text \<open>
  C6 as stated does not hold: the distance between the two outlines is not 0.6. With the
  sample kernel and the sample spec it is 1.2.
\<close>

theorem text_gap_counterexample:
  "text_gap sample_kernel sample_spec \<noteq> 6 / 10"
  by (simp add: text_gap_def text_2d_top_def text_2d_bottom_def align_hi_def)

text \<open>
  C6, amended. The top outline is aligned by its lower edge and moved up by 0.6; the
  bottom outline is aligned by its upper edge and moved down by 0.6. The distance between
  them is therefore 1.2, whatever the strings and the font size. Moved to the centre of
  the flag body, on the front and on the back, the lower edge of the top outline is 0.6
  above the flag's mid-height and the upper edge of the bottom outline is 0.6 below it.
\<close>

theorem text_outline_offsets:
  "text_2d_top s =
     Translate2D (Text (effective_text_top s) (text_font_size s) (Align_CENTER, Align_MIN))
       (0, 6 / 10)
   \<and> text_2d_bottom s =
     Translate2D (Text (effective_text_bottom s) (text_font_size s) (Align_CENTER, Align_MAX))
       (0, - (6 / 10))
   \<and> bounding_box_min_Y k (text_2d_top s) = 6 / 10
   \<and> bounding_box_max_Y k (text_2d_bottom s) = - (6 / 10)
   \<and> text_gap k s = 12 / 10
   \<and> bounding_box_min_Y k (front_text_sketch k s (text_2d_top s))
       = flag_height s / 2 + 6 / 10
   \<and> bounding_box_max_Y k (front_text_sketch k s (text_2d_bottom s))
       = flag_height s / 2 - 6 / 10
   \<and> bounding_box_min_Y k (back_text_sketch k s (text_2d_top s))
       = flag_height s / 2 + 6 / 10
   \<and> bounding_box_max_Y k (back_text_sketch k s (text_2d_bottom s))
       = flag_height s / 2 - 6 / 10"
  by (simp add: text_gap_def text_2d_top_def text_2d_bottom_def align_hi_def
      front_text_sketch_def back_text_sketch_def flag_body_box_center_Z)

section \<open>Fields that no geometry depends on\<close>

text \<open>
  C9. The result of \<open>make_bushing\<close>, a part or an error, does not depend on the fields
  \<open>flag_stem_od\<close>, \<open>flag_length\<close> and \<open>bushing_each_time\<close>: changing any of them in a spec
  leaves it as it was. The length of the flag body is the computed one.
\<close>

theorem make_bushing_unused_fields:
  "make_bushing k (s\<lparr> flag_stem_od := a, flag_length := b, bushing_each_time := c \<rparr>)
     = make_bushing k s
   \<and> flag_body_box k s =
       Translate
         (Box (computed_flag_length k s) (flag_thickness s) (flag_height s)
            (Align_MIN, Align_CENTER, Align_MIN))
         (flag_stem_length_radial s + bushing_od s / 2, 0, 0)"
proof -
  let ?s = "s\<lparr> flag_stem_od := a, flag_length := b, bushing_each_time := c \<rparr>"
  have e: "sleeve ?s = sleeve s" "stem ?s = stem s" "bore ?s = bore s"
    "text_2d_top ?s = text_2d_top s" "text_2d_bottom ?s = text_2d_bottom s"
    "\<And>len. flag_body_box_of len ?s = flag_body_box_of len s"
    by (simp_all add: sleeve_def stem_def bore_def text_2d_top_def text_2d_bottom_def
        effective_text_top_def effective_text_bottom_def flag_body_box_of_def)
  have f: "front_step k ?s = front_step k s" "back_step k ?s = back_step k s"
    by (intro ext, simp add: front_step_def back_step_def)+
  have "make_bushing k ?s = make_bushing k s"
    unfolding make_bushing_def e f by (rule refl)
  then show ?thesis
    by (simp add: flag_body_box_def flag_body_box_of_def)
qed

section \<open>Empty labels\<close>

text \<open>
  C10. When both labels are empty, as they are by default, the first branch of the
  layout is taken: the effective top text is " to" and the effective bottom text is
  empty. Every part that \<open>make_bushing\<close> then returns carries a relief of the text " to"
  on the front and on the back of the flag, beside the reliefs of the empty outline. A
  part is returned when no kernel call raises and the four placed outlines, the empty
  ones among them, are sketches. When the placed empty outline is not a sketch, the
  assertion of line 124 fails after the front relief of " to" was added, and no part is
  returned.
\<close>

theorem default_labels:
  "text_top s = [] \<and> text_bottom s = [] \<longrightarrow>
     label_layout (text_top s) (text_bottom s) = (lit '' to'', [])
     \<and> (let fs = text_font_size s;
            top_2d = Translate2D (Text (lit '' to'') fs (Align_CENTER, Align_MIN)) (0, 6 / 10);
            bottom_2d = Translate2D (Text [] fs (Align_CENTER, Align_MAX)) (0, - (6 / 10));
            len = max (text_width k (lit '' to'') fs) (text_width k [] fs) + 2;
            off = flag_stem_length_radial s + bushing_od s / 2;
            cx = len / 2 + off;
            cz = flag_height s / 2;
            amount = text_thickness s + flag_thickness s / 2;
            front_top = On_Plane Plane_XZ (Translate2D top_2d (cx, cz));
            front_bottom = On_Plane Plane_XZ (Translate2D bottom_2d (cx, cz));
            back_top = On_Plane Plane_XZ (Translate2D top_2d (- cx, cz));
            back_bottom = On_Plane Plane_XZ (Translate2D bottom_2d (- cx, cz));
            sleeve_cylinder =
              Cylinder (bushing_od s / 2) (bushing_length s)
                (Align_CENTER, Align_CENTER, Align_MIN);
            stem_cone =
              Translate
                (Rotate
                   (Cone (min (bushing_od s / 2) (bushing_length s / 2))
                         (flag_thickness s / 2)
                         (flag_stem_length_radial s + bushing_od s / 2)
                         (Align_CENTER, Align_CENTER, Align_MIN))
                   Axis_Y 90)
                (0, 0, min (bushing_length s / 2) (flag_height s / 2));
            flag_box =
              Translate
                (Box len (flag_thickness s) (flag_height s)
                   (Align_MIN, Align_CENTER, Align_MIN))
                (off, 0, 0);
            bore_cylinder =
              Cylinder (bushing_id s / 2) (bushing_length s)
                (Align_CENTER, Align_CENTER, Align_MIN);
            whole =
              Sub
                (Add (Add (Add (Add (Add (Add (Add Part_None
                   sleeve_cylinder)
                   stem_cone)
                   flag_box)
                   (Extrude front_top amount))
                   (Extrude front_bottom amount))
                   (Rotate (Extrude back_top amount) Axis_Z 180))
                   (Rotate (Extrude back_bottom amount) Axis_Z 180))
                bore_cylinder
        in text_2d_top s = top_2d \<and> text_2d_bottom s = bottom_2d
            \<and> (\<forall>p. make_bushing k s = Inr p \<longrightarrow> p = whole)
            \<and> ((\<forall>c. \<not> raises k c) \<and> is_Sketch k front_top \<and> is_Sketch k front_bottom
                  \<and> is_Sketch k back_top \<and> is_Sketch k back_bottom
                \<longrightarrow> make_bushing k s = Inr whole)
            \<and> ((\<forall>c. \<not> raises k c) \<and> is_Sketch k front_top \<and> \<not> is_Sketch k front_bottom
                \<longrightarrow> make_bushing k s = Inl AssertionError_text_sketch))"
  unfolding Let_def
  apply (intro conjI allI impI)
  subgoal premises h
    using h by (simp add: label_layout_def)
  subgoal premises h
    using h by (simp add: text_2d_top_def effective_text_top_def label_layout_def)
  subgoal premises h
    using h by (simp add: text_2d_bottom_def effective_text_bottom_def label_layout_def)
  subgoal premises h for p
    using make_bushing_Inr(1) [OF h(2)] h(1)
    by (simp add: composed_part_def expanded_defs label_layout_def)
  subgoal premises h
    using make_bushing_ok [of k s] h
    by (simp add: composed_part_def expanded_defs label_layout_def)
  subgoal premises h
    using make_bushing_rejected [of k s] h
    by (simp add: expanded_defs label_layout_def)
  done

theorem default_labels_witness:
  "text_top (BushingSpec_defaults 10) = [] \<and> text_bottom (BushingSpec_defaults 10) = []
   \<and> label_layout (text_top (BushingSpec_defaults 10)) (text_bottom (BushingSpec_defaults 10))
       = ([32, 116, 111], [])
   \<and> make_bushing sample_kernel (BushingSpec_defaults 10) = Inl AssertionError_text_sketch
   \<and> make_bushing lenient_kernel (BushingSpec_defaults 10) =
       Inr (Sub
          (Add (Add (Add (Add (Add (Add (Add Part_None
             (Cylinder (16 / 5) 10 (Align_CENTER, Align_CENTER, Align_MIN)))
             (Translate
                (Rotate (Cone (16 / 5) (7 / 5) (36 / 5) (Align_CENTER, Align_CENTER, Align_MIN))
                   Axis_Y 90)
                (0, 0, 5)))
             (Translate (Box 17 (14 / 5) 12 (Align_MIN, Align_CENTER, Align_MIN))
                (36 / 5, 0, 0)))
             (Extrude
                (On_Plane Plane_XZ
                   (Translate2D
                      (Translate2D (Text [32, 116, 111] 5 (Align_CENTER, Align_MIN)) (0, 3 / 5))
                      (157 / 10, 6)))
                (12 / 5)))
             (Extrude
                (On_Plane Plane_XZ
                   (Translate2D
                      (Translate2D (Text [] 5 (Align_CENTER, Align_MAX)) (0, - (3 / 5)))
                      (157 / 10, 6)))
                (12 / 5)))
             (Rotate
                (Extrude
                   (On_Plane Plane_XZ
                      (Translate2D
                         (Translate2D (Text [32, 116, 111] 5 (Align_CENTER, Align_MIN)) (0, 3 / 5))
                         (- (157 / 10), 6)))
                   (12 / 5))
                Axis_Z 180))
             (Rotate
                (Extrude
                   (On_Plane Plane_XZ
                      (Translate2D
                         (Translate2D (Text [] 5 (Align_CENTER, Align_MAX)) (0, - (3 / 5)))
                         (- (157 / 10), 6)))
                   (12 / 5))
                Axis_Z 180))
          (Cylinder (8 / 5) 10 (Align_CENTER, Align_CENTER, Align_MIN)))"
proof -
  have h: "text_top (BushingSpec_defaults 10) = [] \<and> text_bottom (BushingSpec_defaults 10) = []"
    by (simp add: BushingSpec_defaults_def)
  note strict = default_labels [where s = "BushingSpec_defaults 10" and k = sample_kernel,
      unfolded Let_def, THEN mp, OF h]
  note lenient = default_labels [where s = "BushingSpec_defaults 10" and k = lenient_kernel,
      unfolded Let_def, THEN mp, OF h]
  have a: "label_layout (text_top (BushingSpec_defaults 10))
      (text_bottom (BushingSpec_defaults 10)) = ([32, 116, 111], [])"
    using strict [THEN conjunct1] by (simp add: lit_def)
  have b: "make_bushing sample_kernel (BushingSpec_defaults 10)
      = Inl AssertionError_text_sketch"
    using strict [THEN conjunct2, THEN conjunct2, THEN conjunct2, THEN conjunct2,
        THEN conjunct2]
    by (simp add: sample_kernel_def BushingSpec_defaults_def lit_def)
  show ?thesis
    using h a b
      lenient [THEN conjunct2, THEN conjunct2, THEN conjunct2, THEN conjunct2,
        THEN conjunct1]
    by (simp add: lenient_kernel_def BushingSpec_defaults_def lit_def)
qed

end
